theory Spec2Isabelle
  imports Main "HOL-Library.AList"
begin

section \<open>Data model\<close>

text \<open>
  Go strings are byte strings and are modelled as \<open>string\<close> (a list of bytes).
  Every returned error, every runtime panic and the exit of the process through
  \<open>logger().Fatalf\<close> or \<open>Fatalln\<close> is a value of \<open>error\<close>.
\<close>

text \<open>
  Modelled from the spec: \<open>acme.ProblemDetails\<close>, the problem document of the server, is
  declared in a package that is not among the sources; it carries a machine-readable type
  and a human-readable detail. A pointer to it is an \<open>error\<close>.
\<close>

record problemDetails =
  Type :: string
  Detail :: string
  HTTPStatus :: int

datatype error =
    NoNonceAvailable
  | NoProperNonceHeader
  | CouldNotGetNonce string error
  | AlreadyRegistered
  | NotEnoughInformation
  | NoSolversFor string
  | UnexpectedStatus string int
  | External string
  | Problem "problemDetails option"
  | FatalExit
  | PanicIndexOutOfRange
  | PanicNilDereference

text \<open>
  \<open>http.Header\<close> is \<open>map[string][]string\<close>. \<open>Header.Get\<close> returns the first value
  stored under the key and the empty string when there is none.
\<close>

type_synonym header = "string \<rightharpoonup> string list"

definition Header_Get :: "header \<Rightarrow> string \<Rightarrow> string" where
  "Header_Get h k = (case h k of None \<Rightarrow> [] | Some [] \<Rightarrow> [] | Some (v # _) \<Rightarrow> v)"

definition Header_Values :: "header \<Rightarrow> string \<Rightarrow> string list" where
  "Header_Values h k = (case h k of None \<Rightarrow> [] | Some vs \<Rightarrow> vs)"

record response =
  StatusCode :: int
  Header :: header
  Body :: string

text \<open>\<open>type jws struct { privKey *rsa.PrivateKey; nonces []string }\<close>\<close>

record 'k jws =
  privKey :: 'k
  nonces :: "string list"

section \<open>The nonce pool (jws.go)\<close>

definition getNonceFromResponse :: "'k jws \<Rightarrow> response \<Rightarrow> error option \<times> 'k jws" where
  "getNonceFromResponse j resp =
     (let nonce = Header_Get (Header resp) ''Replay-Nonce''
      in if nonce = [] then (Some NoProperNonceHeader, j)
         else (None, j\<lparr>nonces := nonces j @ [nonce]\<rparr>))"

definition Nonce :: "'k jws \<Rightarrow> (error + string) \<times> 'k jws" where
  "Nonce j =
     (if length (nonces j) = 0 then (Inl NoNonceAvailable, j)
      else (Inr (nonces j ! (length (nonces j) - 1)),
            j\<lparr>nonces := take (length (nonces j) - 1) (nonces j)\<rparr>))"

text \<open>
  The parts of the program that live outside the repository are parameters: the RSA key
  type \<open>'k\<close> with \<open>crypto/rsa\<close>'s \<open>Validate\<close>, the signing library (\<open>jose.NewSigner\<close> and
  the signature computation of \<open>Signer.Sign\<close>) and the HTTP client, whose effect on the
  outside world \<open>'w\<close> is passed explicitly.
\<close>

record ('k, 'w) transport =
  rsa_Validate :: "'k \<Rightarrow> error option"
  jose_NewSigner :: "'k \<Rightarrow> error option"
  jose_signPayload :: "'k \<Rightarrow> string \<Rightarrow> string \<Rightarrow> error + string"
  http_Head :: "string \<Rightarrow> 'w \<Rightarrow> (error + response) \<times> 'w"
  http_Post :: "string \<Rightarrow> string \<Rightarrow> 'w \<Rightarrow> (error + response) \<times> 'w"

text \<open>The calls a function makes to those outside parts, in the order it makes them.\<close>

datatype call =
    Call_rsa_Validate
  | Call_logger_Fatalf
  | Call_jose_NewSigner
  | Call_jose_Sign
  | Call_http_Head string
  | Call_http_Post string

text \<open>
  \<open>signContent\<close> creates a signer, registers the \<open>jws\<close> value as the signer's nonce source
  (\<open>SetNonceSource(j)\<close>) and calls \<open>Sign\<close>, which asks the nonce source for one nonce (the
  call of \<open>Nonce\<close> below) and then computes the signature over content and nonce.
\<close>

definition signContent ::
  "('k, 'w) transport \<Rightarrow> 'k jws \<Rightarrow> string \<Rightarrow> (error + string) \<times> 'k jws \<times> call list" where
  "signContent tp j content =
     (case jose_NewSigner tp (privKey j) of
        Some err \<Rightarrow> (Inl err, j, [Call_jose_NewSigner])
      | None \<Rightarrow>
          (case Nonce j of
             (Inl err, j') \<Rightarrow> (Inl err, j', [Call_jose_NewSigner, Call_jose_Sign])
           | (Inr nonce, j') \<Rightarrow>
               (case jose_signPayload tp (privKey j') content nonce of
                  Inl err \<Rightarrow> (Inl err, j', [Call_jose_NewSigner, Call_jose_Sign])
                | Inr signed \<Rightarrow> (Inr signed, j', [Call_jose_NewSigner, Call_jose_Sign]))))"

definition getNonce ::
  "('k, 'w) transport \<Rightarrow> 'k jws \<Rightarrow> string \<Rightarrow> 'w \<Rightarrow> error option \<times> 'k jws \<times> 'w \<times> call list" where
  "getNonce tp j url w =
     (case http_Head tp url w of
        (Inl err, w') \<Rightarrow> (Some err, j, w', [Call_http_Head url])
      | (Inr resp, w') \<Rightarrow>
          (case getNonceFromResponse j resp of
             (r, j') \<Rightarrow> (r, j', w', [Call_http_Head url])))"

text \<open>
  \<open>post\<close>: fetch a nonce when the pool is empty, sign, send, and harvest the nonce of the
  response (the error of that last step is dropped by the source).
\<close>

definition post ::
  "('k, 'w) transport \<Rightarrow> 'k jws \<Rightarrow> string \<Rightarrow> string \<Rightarrow> 'w
     \<Rightarrow> (error + response) \<times> 'k jws \<times> 'w \<times> call list" where
  "post tp j url content w =
     (case (if length (nonces j) = 0 then getNonce tp j url w else (None, j, w, [])) of
        (Some err, j0, w0, c0) \<Rightarrow> (Inl (CouldNotGetNonce url err), j0, w0, c0)
      | (None, j0, w0, c0) \<Rightarrow>
          (case signContent tp j0 content of
             (Inl err, j1, c1) \<Rightarrow> (Inl err, j1, w0, c0 @ c1)
           | (Inr signed, j1, c1) \<Rightarrow>
               (case http_Post tp url signed w0 of
                  (Inl err, w1) \<Rightarrow> (Inl err, j1, w1, c0 @ c1 @ [Call_http_Post url])
                | (Inr resp, w1) \<Rightarrow>
                    (Inr resp, snd (getNonceFromResponse j1 resp), w1,
                     c0 @ c1 @ [Call_http_Post url]))))"

text \<open>
  A transport for concrete evaluations: every key is valid, signing concatenates content
  and nonce, and the server of world \<open>'w = response list\<close> answers each request with the
  next scripted response (a transport error when the script is exhausted).
\<close>

definition scripted :: "response list \<Rightarrow> (error + response) \<times> response list" where
  "scripted w = (case w of [] \<Rightarrow> (Inl (External ''no response''), []) | r # rs \<Rightarrow> (Inr r, rs))"

definition scriptedTransport :: "(unit, response list) transport" where
  "scriptedTransport =
     \<lparr>rsa_Validate = (\<lambda>k. None),
      jose_NewSigner = (\<lambda>k. None),
      jose_signPayload = (\<lambda>k content nonce. Inr (content @ ''.'' @ nonce)),
      http_Head = (\<lambda>url w. scripted w),
      http_Post = (\<lambda>url body w. scripted w)\<rparr>"

section \<open>Link headers (client.go, parseLinks)\<close>

text \<open>
  The two regular expressions of \<open>parseLinks\<close> are interpreted by a backtracking matcher
  with Go's leftmost-first semantics: the match starts as early as possible, and among
  the matches from that start it is the one a backtracking search that prefers more
  repetitions finds first. A regular expression is a sequence of tokens: \<open>Mark\<close> is a
  parenthesis of a capture group; \<open>.\<close> matches every character but the newline. The
  delimiters of the expression are ASCII, so matching bytes agrees with matching runes.
\<close>

datatype atom = Lit char | AnyChar

datatype tok = Mark | One atom | Star atom | Plus atom

fun atomMatches :: "atom \<Rightarrow> char \<Rightarrow> bool" where
  "atomMatches (Lit d) c = (c = d)"
| "atomMatches AnyChar c = (c \<noteq> CHR 0x0A)"

text \<open>
  \<open>matchToks re cs i caps\<close> matches \<open>re\<close> at the head of \<open>cs\<close>, which is at offset \<open>i\<close>;
  the result lists the offsets of the group parentheses and, last, the end of the match.
\<close>

fun matchToks :: "tok list \<Rightarrow> string \<Rightarrow> nat \<Rightarrow> nat list \<Rightarrow> nat list option" where
  "matchToks [] cs i caps = Some (rev (i # caps))"
| "matchToks (Mark # ts) cs i caps = matchToks ts cs i (i # caps)"
| "matchToks (One a # ts) [] i caps = None"
| "matchToks (One a # ts) (c # cs) i caps =
     (if atomMatches a c then matchToks ts cs (Suc i) caps else None)"
| "matchToks (Star a # ts) [] i caps = matchToks ts [] i caps"
| "matchToks (Star a # ts) (c # cs) i caps =
     (case (if atomMatches a c then matchToks (Star a # ts) cs (Suc i) caps else None) of
        Some r \<Rightarrow> Some r
      | None \<Rightarrow> matchToks ts (c # cs) i caps)"
| "matchToks (Plus a # ts) [] i caps = None"
| "matchToks (Plus a # ts) (c # cs) i caps =
     (if atomMatches a c then matchToks (Star a # ts) cs (Suc i) caps else None)"

fun groups :: "string \<Rightarrow> nat list \<Rightarrow> string list" where
  "groups s (a # b # ps) = take (b - a) (drop a s) # groups s ps"
| "groups s ps = []"

definition submatches :: "string \<Rightarrow> nat list \<Rightarrow> string list" where
  "submatches s ps = take (last ps) s # groups s (butlast ps)"

text \<open>
  \<open>Regexp.FindStringSubmatch\<close>: the whole match followed by the text of each group, and
  the empty slice (nil) when the expression matches nowhere.
\<close>

fun FindStringSubmatch :: "tok list \<Rightarrow> string \<Rightarrow> string list" where
  "FindStringSubmatch re [] =
     (case matchToks re [] 0 [] of None \<Rightarrow> [] | Some ps \<Rightarrow> submatches [] ps)"
| "FindStringSubmatch re (c # cs) =
     (case matchToks re (c # cs) 0 [] of
        None \<Rightarrow> FindStringSubmatch re cs
      | Some ps \<Rightarrow> submatches (c # cs) ps)"

text \<open>\<open>slver := regexp.MustCompile("(.+) *= *\"(.+)\"")\<close>\<close>

definition slver :: "tok list" where
  "slver = [Mark, Plus AnyChar, Mark, Star (Lit CHR '' ''), One (Lit CHR ''=''),
            Star (Lit CHR '' ''), One (Lit CHR 0x22), Mark, Plus AnyChar, Mark,
            One (Lit CHR 0x22)]"

text \<open>
  \<open>aBrkt := regexp.MustCompile("[<>]")\<close>; \<open>aBrkt.ReplaceAllString(link, "")\<close> deletes every
  angle bracket.
\<close>

definition aBrkt_ReplaceAllString :: "string \<Rightarrow> string" where
  "aBrkt_ReplaceAllString link = filter (\<lambda>c. c \<noteq> CHR ''<'' \<and> c \<noteq> CHR ''>'') link"

text \<open>
  \<open>strings.Split(s, sep)\<close> for a separator of one character: the pieces between the
  separators, one more than there are separators.
\<close>

fun Split :: "string \<Rightarrow> char \<Rightarrow> string list" where
  "Split [] sep = [[]]"
| "Split (c # cs) sep =
     (if c = sep then [] # Split cs sep
      else (case Split cs sep of [] \<Rightarrow> [[c]] | p # ps \<Rightarrow> (c # p) # ps))"

text \<open>
  The body of the loop of \<open>parseLinks\<close> for one element of the header's values. Indexing
  a slice out of range panics.
\<close>

definition parseLink :: "(string \<rightharpoonup> string) \<Rightarrow> string \<Rightarrow> error + (string \<rightharpoonup> string)" where
  "parseLink linkMap link0 =
     (let link = aBrkt_ReplaceAllString link0;
          parts = Split link CHR '';''
      in if 1 < length parts then
           (let matches = FindStringSubmatch slver (parts ! 1)
            in if length matches > 0 then
                 (if 2 < length matches
                  then Inr (linkMap(matches ! 2 \<mapsto> parts ! 0))
                  else Inl PanicIndexOutOfRange)
               else Inr linkMap)
         else Inl PanicIndexOutOfRange)"

fun parseLinksLoop :: "(string \<rightharpoonup> string) \<Rightarrow> string list \<Rightarrow> error + (string \<rightharpoonup> string)" where
  "parseLinksLoop linkMap [] = Inr linkMap"
| "parseLinksLoop linkMap (link # links) =
     (case parseLink linkMap link of
        Inl err \<Rightarrow> Inl err
      | Inr linkMap' \<Rightarrow> parseLinksLoop linkMap' links)"

definition parseLinks :: "string list \<Rightarrow> error + (string \<rightharpoonup> string)" where
  "parseLinks links = parseLinksLoop Map.empty links"

text \<open>Reading a Go map of strings: a missing key reads as the empty string.\<close>

definition mapGet :: "(string \<rightharpoonup> string) \<Rightarrow> string \<Rightarrow> string" where
  "mapGet m k = (case m k of None \<Rightarrow> [] | Some v \<Rightarrow> v)"

text \<open>
  What one header value with a \<open>;\<close> contributes: the relation name found in its second
  segment and the text before the first \<open>;\<close>.
\<close>

definition linkEntry :: "string \<Rightarrow> (string \<times> string) option" where
  "linkEntry link0 =
     (let parts = Split (aBrkt_ReplaceAllString link0) CHR '';'';
          matches = FindStringSubmatch slver (parts ! 1)
      in if length matches > 0 then Some (matches ! 2, parts ! 0) else None)"

text \<open>Link header values for concrete evaluations.\<close>

definition tosLink :: string where
  \<open>tosLink = ''<https://ca.example/terms>;rel="terms-of-service"''\<close>

definition nextLink1 :: string where
  \<open>nextLink1 = ''<https://ca.example/authz/1>;rel="next"''\<close>

definition nextLink2 :: string where
  \<open>nextLink2 = ''<https://ca.example/authz/2>; rel = "next"''\<close>

definition twoInOne :: string where
  \<open>twoInOne = ''<https://ca.example/a>;rel="next", <https://ca.example/b>;rel="next"''\<close>

section \<open>Authorizations and solver selection (client.go)\<close>

text \<open>
  Modelled from the spec: the struct types \<open>challenge\<close>, \<open>identifier\<close> (here
  \<open>acme_identifier\<close>), \<open>authorization\<close> and \<open>authorizationResource\<close> are declared in a
  file of the package that is not among the sources. Their fields are those the functions below read and write (\<open>Type\<close>,
  \<open>Challenges\<close>, \<open>Combinations\<close>, \<open>Identifier\<close>, \<open>Body\<close>, \<open>NewCertURL\<close>, \<open>Domain\<close>) and
  those the specification's data model lists (token, status, url). A combination is a
  slice of integers.
\<close>

record challenge =
  Type :: string
  Status :: string
  URI :: string
  Token :: string

record acme_identifier =
  Type :: string
  Value :: string

record authorization =
  Status :: string
  Identifier :: acme_identifier
  Challenges :: "challenge list"
  Combinations :: "int list list"

record authorizationResource =
  Body :: authorization
  NewCertURL :: string
  Domain :: string

text \<open>The zero value of \<open>authorization\<close>.\<close>

definition zeroAuthorization :: authorization where
  "zeroAuthorization =
     \<lparr>authorization.Status = [], Identifier = \<lparr>acme_identifier.Type = [], Value = []\<rparr>,
      Challenges = [], Combinations = []\<rparr>"

text \<open>
  \<open>chooseSolvers\<close>. The registry \<open>c.Solvers\<close> is a map from challenge type to solver. The
  result \<open>map[int]solver\<close> is an association list with distinct keys (\<open>AList.update\<close>
  overwrites an existing key, so its length is Go's \<open>len\<close> of the map); \<open>None\<close> is the
  nil map. The inner loop is \<open>for i := range combination\<close>: \<open>i\<close> runs over the positions
  \<open>0, ..., len(combination) - 1\<close>, and \<open>auth.Challenges[i]\<close> panics when \<open>i\<close> is out of
  range.
\<close>

fun rangeCombination ::
  "(string \<rightharpoonup> 's) \<Rightarrow> challenge list \<Rightarrow> nat list \<Rightarrow> (nat \<times> 's) list \<Rightarrow> error + (nat \<times> 's) list" where
  "rangeCombination registry chs [] solvers = Inr solvers"
| "rangeCombination registry chs (i # is) solvers =
     (if i < length chs then
        (case registry (challenge.Type (chs ! i)) of
           Some solver \<Rightarrow> rangeCombination registry chs is (AList.update i solver solvers)
         | None \<Rightarrow> rangeCombination registry chs is solvers)
      else Inl PanicIndexOutOfRange)"

fun chooseSolversLoop ::
  "(string \<rightharpoonup> 's) \<Rightarrow> challenge list \<Rightarrow> int list list \<Rightarrow> error + (nat \<times> 's) list option" where
  "chooseSolversLoop registry chs [] = Inr None"
| "chooseSolversLoop registry chs (combination # rest) =
     (case rangeCombination registry chs [0..<length combination] [] of
        Inl err \<Rightarrow> Inl err
      | Inr solvers \<Rightarrow>
          if length solvers = length combination then Inr (Some solvers)
          else chooseSolversLoop registry chs rest)"

definition chooseSolvers ::
  "(string \<rightharpoonup> 's) \<Rightarrow> authorization \<Rightarrow> error + (nat \<times> 's) list option" where
  "chooseSolvers registry auth =
     chooseSolversLoop registry (Challenges auth) (Combinations auth)"

text \<open>
  \<open>solveChallenges\<close>. Each call \<open>solver.Solve(challenge, domain)\<close> is recorded; the calls
  for one authorization are listed in the order of the association list (Go ranges over
  the map in an unspecified order). The function returns at the first authorization for
  which \<open>chooseSolvers\<close> gives nil.
\<close>

fun rangeSolvers ::
  "challenge list \<Rightarrow> string \<Rightarrow> (nat \<times> 's) list \<Rightarrow> error + ('s \<times> challenge \<times> string) list" where
  "rangeSolvers chs domain [] = Inr []"
| "rangeSolvers chs domain ((i, solver) # rest) =
     (if i < length chs then
        (case rangeSolvers chs domain rest of
           Inl err \<Rightarrow> Inl err
         | Inr calls \<Rightarrow> Inr ((solver, chs ! i, domain) # calls))
      else Inl PanicIndexOutOfRange)"

fun solveChallenges ::
  "(string \<rightharpoonup> 's) \<Rightarrow> authorizationResource list
     \<Rightarrow> error option \<times> ('s \<times> challenge \<times> string) list" where
  "solveChallenges registry [] = (None, [])"
| "solveChallenges registry (authz # rest) =
     (case chooseSolvers registry (Body authz) of
        Inl err \<Rightarrow> (Some err, [])
      | Inr None \<Rightarrow> (Some (NoSolversFor (Domain authz)), [])
      | Inr (Some solvers) \<Rightarrow>
          (case rangeSolvers (Challenges (Body authz)) (Domain authz) solvers of
             Inl err \<Rightarrow> (Some err, [])
           | Inr calls \<Rightarrow>
               (case solveChallenges registry rest of
                  (r, calls') \<Rightarrow> (r, calls @ calls'))))"

text \<open>
  Solver selection as the specification words it, for comparison with \<open>chooseSolvers\<close>:
  a combination is covered when every challenge index it lists is an index of an offered
  challenge whose type has a registered solver; the first covered combination gives the
  solvers, keyed by the listed indices, and there is no result when none is covered.
\<close>

definition covered :: "(string \<rightharpoonup> 's) \<Rightarrow> challenge list \<Rightarrow> int list \<Rightarrow> bool" where
  "covered registry chs combination =
     list_all (\<lambda>idx. 0 \<le> idx \<and> nat idx < length chs
                  \<and> registry (challenge.Type (chs ! nat idx)) \<noteq> None) combination"

definition chooseSolvers_spec ::
  "(string \<rightharpoonup> 's) \<Rightarrow> authorization \<Rightarrow> (nat \<times> 's) list option" where
  "chooseSolvers_spec registry auth =
     (case filter (covered registry (Challenges auth)) (Combinations auth) of
        [] \<Rightarrow> None
      | combination # _ \<Rightarrow>
          Some (map (\<lambda>idx. (nat idx, the (registry (challenge.Type (Challenges auth ! nat idx)))))
                  (remdups combination)))"

text \<open>Authorizations for concrete evaluations; solvers are named by strings.\<close>

definition chal :: "string \<Rightarrow> challenge" where
  "chal t = \<lparr>challenge.Type = t, challenge.Status = ''pending'', URI = [], Token = []\<rparr>"

definition authzOf :: "challenge list \<Rightarrow> int list list \<Rightarrow> authorization" where
  "authzOf chs combs =
     \<lparr>authorization.Status = ''pending'',
      Identifier = \<lparr>acme_identifier.Type = ''dns'', Value = ''example.com''\<rparr>,
      Challenges = chs, Combinations = combs\<rparr>"

section \<open>The client: construction and registration (client.go)\<close>

text \<open>
  Modelled from the spec: the struct types \<open>Registration\<close>, \<open>RegistrationResource\<close> and
  \<open>registrationMessage\<close> are declared in a file of the package that is not among the
  sources. Their fields are those the functions below read and write. The \<open>User\<close>
  interface is a record of what its three methods return; a pointer that may be nil is an
  option.
\<close>

record registration =
  Contact :: "string list"
  Agreement :: string

record registrationResource =
  Body :: registration
  URI :: string
  NewAuthzURL :: string
  TosURL :: string

record 'k user =
  GetEmail :: string
  GetRegistration :: "registrationResource option"
  GetPrivateKey :: "'k option"

record ('k, 's) client =
  regURL :: string
  user :: "'k user"
  jws :: "'k jws"
  Solvers :: "string \<rightharpoonup> 's"

text \<open>
  \<open>encoding/json\<close> is a parameter. A failed \<open>Decode\<close> into the zero-valued
  \<open>authorization\<close> reports its error together with what it left in the variable.
\<close>

record codec =
  marshal_registrationMessage :: "string list \<Rightarrow> error + string"
  decode_Registration :: "string \<Rightarrow> error + registration"
  marshal_authorization :: "authorization \<Rightarrow> error + string"
  decode_authorization :: "string \<Rightarrow> error option \<times> authorization"

text \<open>
  \<open>NewClient\<close>. \<open>Validate\<close> is called on the user's key; on a nil key that call
  dereferences nil. \<open>logger().Fatalf\<close> prints and exits the process. The map of solvers
  built by the function is not stored in the client it returns, so \<open>Solvers\<close> is the nil
  map.
\<close>

definition NewClient ::
  "('k, 'w) transport \<Rightarrow> string \<Rightarrow> 'k user \<Rightarrow> string \<Rightarrow> (error + ('k, 's) client) \<times> call list" where
  "NewClient tp caURL usr optPort =
     (case GetPrivateKey usr of
        None \<Rightarrow> (Inl PanicNilDereference, [Call_rsa_Validate])
      | Some key \<Rightarrow>
          (case rsa_Validate tp key of
             Some err \<Rightarrow> (Inl FatalExit, [Call_rsa_Validate, Call_logger_Fatalf])
           | None \<Rightarrow>
               (Inr \<lparr>regURL = caURL, user = usr, jws = \<lparr>privKey = key, nonces = []\<rparr>,
                     Solvers = Map.empty\<rparr>,
                [Call_rsa_Validate])))"

text \<open>\<open>Register\<close>. The \<open>jws\<close> of the client is shared by pointer, so the client is returned
  with the nonce pool as \<open>post\<close> left it.\<close>

definition Register ::
  "('k, 'w) transport \<Rightarrow> codec \<Rightarrow> ('k, 's) client \<Rightarrow> 'w
     \<Rightarrow> (error + registrationResource) \<times> ('k, 's) client \<times> 'w \<times> call list" where
  "Register tp cd c w =
     (case marshal_registrationMessage cd [''mailto:'' @ GetEmail (user c)] of
        Inl err \<Rightarrow> (Inl err, c, w, [])
      | Inr jsonBytes \<Rightarrow>
          (case post tp (jws c) (regURL c) jsonBytes w of
             (Inl err, j, w', cs) \<Rightarrow> (Inl err, c\<lparr>jws := j\<rparr>, w', cs)
           | (Inr resp, j, w', cs) \<Rightarrow>
               (if StatusCode resp = 409 then (Inl AlreadyRegistered, c\<lparr>jws := j\<rparr>, w', cs)
                else
                  (case decode_Registration cd (response.Body resp) of
                     Inl err \<Rightarrow> (Inl err, c\<lparr>jws := j\<rparr>, w', cs)
                   | Inr serverReg \<Rightarrow>
                       (case parseLinks (Header_Values (Header resp) ''Link'') of
                          Inl err \<Rightarrow> (Inl err, c\<lparr>jws := j\<rparr>, w', cs)
                        | Inr links \<Rightarrow>
                            (let reg = \<lparr>registrationResource.Body = serverReg,
                                        registrationResource.URI =
                                          Header_Get (Header resp) ''Location'',
                                        NewAuthzURL = [], TosURL = []\<rparr>;
                                 reg' = (if mapGet links ''terms-of-service'' \<noteq> []
                                         then reg\<lparr>TosURL := mapGet links ''terms-of-service''\<rparr>
                                         else reg)
                             in if mapGet links ''next'' \<noteq> []
                                then (Inr (reg'\<lparr>NewAuthzURL := mapGet links ''next''\<rparr>),
                                      c\<lparr>jws := j\<rparr>, w', cs)
                                else (Inl NotEnoughInformation, c\<lparr>jws := j\<rparr>, w', cs)))))))"

text \<open>A JSON codec and a client for concrete evaluations.\<close>

definition plainCodec :: codec where
  "plainCodec =
     \<lparr>marshal_registrationMessage = (\<lambda>contact. Inr (concat contact)),
      decode_Registration = (\<lambda>body. Inr \<lparr>Contact = [body], Agreement = []\<rparr>),
      marshal_authorization = (\<lambda>a. Inr (Value (Identifier a))),
      decode_authorization = (\<lambda>body. (None, authzOf [chal ''simpleHttp''] [[0]]))\<rparr>"

definition aliceUser :: "unit user" where
  "aliceUser = \<lparr>GetEmail = ''alice@example.com'', GetRegistration = None,
                GetPrivateKey = Some ()\<rparr>"

definition aliceClient :: "(unit, string) client" where
  "aliceClient = \<lparr>regURL = ''https://ca.example/new-reg'', user = aliceUser,
                  jws = \<lparr>privKey = (), nonces = []\<rparr>, Solvers = Map.empty\<rparr>"

definition nonceResponse :: response where
  "nonceResponse = \<lparr>StatusCode = 200, Header = [''Replay-Nonce'' \<mapsto> [''n1'']], Body = []\<rparr>"

definition conflictResponse :: response where
  "conflictResponse = \<lparr>StatusCode = 409, Header = [''Replay-Nonce'' \<mapsto> [''n2'']], Body = []\<rparr>"

section \<open>Fetching the challenges of several domains (client.go)\<close>

text \<open>
  \<open>getChallenges\<close> starts one goroutine per domain and then receives \<open>len(domains)\<close>
  messages from the two unbuffered channels \<open>resc\<close> and \<open>errc\<close>. The model has three parts.
  \<^item> \<open>challengeGoroutine\<close>: what one goroutine tries to send, in order, and how it ends.
    The goroutines share the \<open>jws\<close> without a lock; the answer to the \<open>post\<close> of a
    goroutine is therefore an input, \<open>posted url body\<close>.
  \<^item> \<open>deliver\<close>: the order in which the sends reach the \<open>select\<close> is not fixed by the
    program; a schedule names, step by step, the goroutine whose next send is received.
  \<^item> \<open>receiveLoop\<close>: the receiving loop. It appends a resource to \<open>responses\<close> and
    writes an error to the log.
  A run in which a goroutine panics or exits the process, or in which fewer messages
  arrive than the loop waits for, does not return: the result is \<open>None\<close>. Sends that are
  still pending when the loop ends are not followed further.
\<close>

datatype message = Res authorizationResource | Err error

datatype ending = Returns | ExitsProcess | Panics

definition challengeGoroutine ::
  "codec \<Rightarrow> (string \<Rightarrow> string \<Rightarrow> error + response) \<Rightarrow> ('k, 's) client \<Rightarrow> string
     \<Rightarrow> message list \<times> ending" where
  "challengeGoroutine cd posted c domain =
     (case marshal_authorization cd
             (zeroAuthorization\<lparr>Identifier := \<lparr>acme_identifier.Type = ''dns'', Value = domain\<rparr>\<rparr>) of
        Inl err \<Rightarrow> ([Err err], Returns)
      | Inr jsonBytes \<Rightarrow>
          (case GetRegistration (user c) of
             None \<Rightarrow> ([], Panics)
           | Some reg \<Rightarrow>
               (case posted (NewAuthzURL reg) jsonBytes of
                  Inl err \<Rightarrow> ([Err err], Returns)
                | Inr resp \<Rightarrow>
                    (let sent = (if StatusCode resp \<noteq> 201
                                 then [Err (UnexpectedStatus domain (StatusCode resp))]
                                 else [])
                     in case parseLinks (Header_Values (Header resp) ''Link'') of
                          Inl err \<Rightarrow> (sent, Panics)
                        | Inr links \<Rightarrow>
                            if mapGet links ''next'' = [] then (sent, ExitsProcess)
                            else
                              (case decode_authorization cd (response.Body resp) of
                                 (Some err, authz) \<Rightarrow>
                                   (sent @ [Err err,
                                            Res \<lparr>authorizationResource.Body = authz,
                                                 NewCertURL = mapGet links ''next'',
                                                 Domain = domain\<rparr>],
                                    Returns)
                               | (None, authz) \<Rightarrow>
                                   (sent @ [Res \<lparr>authorizationResource.Body = authz,
                                                 NewCertURL = mapGet links ''next'',
                                                 Domain = domain\<rparr>],
                                    Returns))))))"

fun deliver :: "message list list \<Rightarrow> nat list \<Rightarrow> message list" where
  "deliver queues [] = []"
| "deliver queues (i # schedule) =
     (if i < length queues then
        (case queues ! i of
           [] \<Rightarrow> deliver queues schedule
         | m # rest \<Rightarrow> m # deliver (queues[i := rest]) schedule)
      else deliver queues schedule)"







text \<open>
  A registered client and a server for concrete evaluations: the request for
  \<open>a.example.com\<close> fails in transport, every other request is answered with 201 and a
  \<open>next\<close> link.
\<close>

definition bobClient :: "(unit, string) client" where
  "bobClient =
     \<lparr>regURL = ''https://ca.example/new-reg'',
      user = \<lparr>GetEmail = ''bob@example.com'',
               GetRegistration =
                 Some \<lparr>registrationResource.Body = \<lparr>Contact = [], Agreement = []\<rparr>,
                       registrationResource.URI = ''https://ca.example/reg/1'',
                       NewAuthzURL = ''https://ca.example/new-authz'', TosURL = []\<rparr>,
               GetPrivateKey = Some ()\<rparr>,
      jws = \<lparr>privKey = (), nonces = []\<rparr>,
      Solvers = [''simpleHttp'' \<mapsto> ''S1'']\<rparr>"

definition createdResponse :: response where
  "createdResponse = \<lparr>StatusCode = 201, Header = [''Link'' \<mapsto> [nextLink1]], Body = []\<rparr>"

definition flakyServer :: "string \<Rightarrow> string \<Rightarrow> error + response" where
  "flakyServer url body =
     (if body = ''a.example.com'' then Inl (External ''connection refused'')
      else Inr createdResponse)"

section \<open>The order service (package api)\<close>

text \<open>
  Modelled from the spec: the types \<open>acme.Order\<close>, \<open>acme.ExtendedOrder\<close>, \<open>acme.Identifier\<close>
  (the record \<open>acme_identifier\<close> above) and \<open>acme.CSRMessage\<close>, and the constant
  \<open>acme.StatusInvalid\<close>, belong to a package that is not among the sources. An order has
  identifiers, a status among pending, ready, processing, valid and invalid, authorization
  URLs, a finalize URL, a certificate URL and, when invalid, the server's problem
  document.
\<close>

record order =
  Status :: string
  Identifiers :: "acme_identifier list"
  Authorizations :: "string list"
  Finalize :: string
  Certificate :: string
  Error :: "problemDetails option"

record extendedOrder =
  Order :: order
  Location :: string

definition StatusInvalid :: string where
  "StatusInvalid = ''invalid''"

definition zeroOrder :: order where
  "zeroOrder = \<lparr>order.Status = [], Identifiers = [], Authorizations = [], Finalize = [],
                Certificate = [], Error = None\<rparr>"

text \<open>
  The core of the API (\<open>o.core\<close>) is a parameter: the URL of the directory's new-order
  endpoint and \<open>core.post\<close>, which signs and sends a request body, decodes the answer into
  an order and returns the response; its effect on the outside world \<open>'w\<close> is explicit.
\<close>

datatype payload = OrderRequest order | CSRMessage string

record 'w core =
  NewOrderURL :: string
  core_post :: "string \<Rightarrow> payload \<Rightarrow> 'w \<Rightarrow> (error + response \<times> order) \<times> 'w"

text \<open>\<open>OrderService.New\<close>: the loop that builds the identifiers, then the request.\<close>

definition orderRequest :: "string list \<Rightarrow> order" where
  "orderRequest domains =
     zeroOrder\<lparr>Identifiers :=
       foldl (\<lambda>identifiers domain.
                identifiers @ [\<lparr>acme_identifier.Type = ''dns'', Value = domain\<rparr>])
         [] domains\<rparr>"

definition OrderService_New ::
  "'w core \<Rightarrow> string list \<Rightarrow> 'w \<Rightarrow> (error + extendedOrder) \<times> 'w" where
  "OrderService_New o_core domains w =
     (case core_post o_core (NewOrderURL o_core) (OrderRequest (orderRequest domains)) w of
        (Inl err, w') \<Rightarrow> (Inl err, w')
      | (Inr (resp, order), w') \<Rightarrow>
          (Inr \<lparr>Order = order, Location = Header_Get (Header resp) ''Location''\<rparr>, w'))"

text \<open>
  \<open>base64.RawURLEncoding.EncodeToString\<close>: base64 with the URL-safe alphabet and without
  padding. A byte is a \<open>char\<close>.
\<close>

definition encodeURL :: string where
  "encodeURL = ''ABCDEFGHIJKLMNOPQRSTUVWXYZabcdefghijklmnopqrstuvwxyz0123456789-_''"

fun encodeBytes :: "nat list \<Rightarrow> string" where
  "encodeBytes (a # b # c # rest) =
     [encodeURL ! (a div 4), encodeURL ! ((a mod 4) * 16 + b div 16),
      encodeURL ! ((b mod 16) * 4 + c div 64), encodeURL ! (c mod 64)] @ encodeBytes rest"
| "encodeBytes [a, b] =
     [encodeURL ! (a div 4), encodeURL ! ((a mod 4) * 16 + b div 16),
      encodeURL ! ((b mod 16) * 4)]"
| "encodeBytes [a] = [encodeURL ! (a div 4), encodeURL ! ((a mod 4) * 16)]"
| "encodeBytes [] = []"

definition RawURLEncoding_EncodeToString :: "string \<Rightarrow> string" where
  "RawURLEncoding_EncodeToString src = encodeBytes (map of_char src)"

text \<open>\<open>OrderService.UpdateForCSR\<close>\<close>

definition OrderService_UpdateForCSR ::
  "'w core \<Rightarrow> string \<Rightarrow> string \<Rightarrow> 'w \<Rightarrow> (error + extendedOrder) \<times> 'w" where
  "OrderService_UpdateForCSR o_core orderURL csr w =
     (let csrMsg = CSRMessage (RawURLEncoding_EncodeToString csr)
      in case core_post o_core orderURL csrMsg w of
           (Inl err, w') \<Rightarrow> (Inl err, w')
         | (Inr (resp, order), w') \<Rightarrow>
             if order.Status order = StatusInvalid then (Inl (Problem (Error order)), w')
             else (Inr \<lparr>Order = order, Location = []\<rparr>, w'))"

text \<open>
  A core for concrete evaluations: the world is the list of requests sent so far; every
  request is answered with status 201, a \<open>Location\<close> header and an order whose status is
  \<open>processing\<close>.
\<close>

definition processingOrder :: order where
  "processingOrder = zeroOrder\<lparr>order.Status := ''processing'',
                                Finalize := ''https://ca.example/order/1/finalize''\<rparr>"

definition recordingCore :: "(string \<times> payload) list core" where
  "recordingCore =
     \<lparr>NewOrderURL = ''https://ca.example/new-order'',
      core_post = (\<lambda>url body w.
        (Inr (\<lparr>StatusCode = 201,
                Header = [''Location'' \<mapsto> [''https://ca.example/order/1'']],
                Body = []\<rparr>, processingOrder),
         w @ [(url, body)]))\<rparr>"

text \<open>A core whose server answers every request with an invalid order.\<close>

definition invalidOrder :: order where
  "invalidOrder =
     zeroOrder\<lparr>order.Status := ''invalid'',
               Error := Some \<lparr>problemDetails.Type = ''urn:ietf:params:acme:error:badCSR'',
                               Detail = ''CSR is not acceptable'', HTTPStatus = 400\<rparr>\<rparr>"

definition rejectingCore :: "(string \<times> payload) list core" where
  "rejectingCore =
     \<lparr>NewOrderURL = ''https://ca.example/new-order'',
      core_post = (\<lambda>url body w.
        (Inr (\<lparr>StatusCode = 200, Header = Map.empty, Body = []\<rparr>, invalidOrder),
         w @ [(url, body)]))\<rparr>"

text \<open>A core whose requests all fail in transport.\<close>

definition offlineCore :: "(string \<times> payload) list core" where
  "offlineCore =
     \<lparr>NewOrderURL = ''https://ca.example/new-order'',
      core_post = (\<lambda>url body w. (Inl (External ''connection refused''), w @ [(url, body)]))\<rparr>"

section \<open>Properties of the nonce pool\<close>

lemma Nonce_empty: "nonces j = [] \<Longrightarrow> Nonce j = (Inl NoNonceAvailable, j)"
  by (simp add: Nonce_def)

lemma Nonce_nonempty:
  "nonces j \<noteq> [] \<Longrightarrow> Nonce j = (Inr (last (nonces j)), j\<lparr>nonces := butlast (nonces j)\<rparr>)"
  by (simp add: Nonce_def last_conv_nth butlast_conv_take)

lemma getNonceFromResponse_present:
  "Header_Get (Header resp) ''Replay-Nonce'' \<noteq> [] \<Longrightarrow>
   getNonceFromResponse j resp =
     (None, j\<lparr>nonces := nonces j @ [Header_Get (Header resp) ''Replay-Nonce'']\<rparr>)"
  by (simp add: getNonceFromResponse_def)

lemma getNonceFromResponse_absent:
  "Header_Get (Header resp) ''Replay-Nonce'' = [] \<Longrightarrow>
   getNonceFromResponse j resp = (Some NoProperNonceHeader, j)"
  by (simp add: getNonceFromResponse_def)

text \<open>
  Claim C9. Drawing a nonce removes and returns exactly the nonce that was added last
  (the pool is a stack: what \<open>getNonceFromResponse\<close> appended most recently is what
  \<open>Nonce\<close> hands out, and the pool is back to what it was before that response); on the
  empty pool the draw returns the error and the pool is unchanged.
\<close>

theorem Nonce_lifo:
  "(nonces j \<noteq> [] \<longrightarrow>
      Nonce j = (Inr (last (nonces j)), j\<lparr>nonces := butlast (nonces j)\<rparr>))
   \<and> (Header_Get (Header resp) ''Replay-Nonce'' \<noteq> [] \<longrightarrow>
      Nonce (snd (getNonceFromResponse j resp))
        = (Inr (Header_Get (Header resp) ''Replay-Nonce''), j))
   \<and> (nonces j = [] \<longrightarrow> Nonce j = (Inl NoNonceAvailable, j))"
proof (intro conjI impI)
  assume "nonces j \<noteq> []"
  then show "Nonce j = (Inr (last (nonces j)), j\<lparr>nonces := butlast (nonces j)\<rparr>)"
    by (rule Nonce_nonempty)
next
  assume h: "Header_Get (Header resp) ''Replay-Nonce'' \<noteq> []"
  let ?n = "Header_Get (Header resp) ''Replay-Nonce''"
  have "snd (getNonceFromResponse j resp) = j\<lparr>nonces := nonces j @ [?n]\<rparr>"
    using h by (simp add: getNonceFromResponse_present)
  moreover have "Nonce (j\<lparr>nonces := nonces j @ [?n]\<rparr>) = (Inr ?n, j)"
    by (simp add: Nonce_def)
  ultimately show "Nonce (snd (getNonceFromResponse j resp)) = (Inr ?n, j)"
    by simp
next
  assume "nonces j = []"
  then show "Nonce j = (Inl NoNonceAvailable, j)"
    by (rule Nonce_empty)
qed

theorem Nonce_lifo_witness:
  "Nonce \<lparr>privKey = (), nonces = [''n1'', ''n2'']\<rparr>
     = (Inr ''n2'', \<lparr>privKey = (), nonces = [''n1'']\<rparr>)
   \<and> Nonce (snd (getNonceFromResponse \<lparr>privKey = (), nonces = [''n1'']\<rparr>
         \<lparr>StatusCode = 400, Header = [''Replay-Nonce'' \<mapsto> [''n3'']], Body = []\<rparr>))
     = (Inr ''n3'', \<lparr>privKey = (), nonces = [''n1'']\<rparr>)
   \<and> Nonce \<lparr>privKey = (), nonces = []\<rparr>
     = (Inl NoNonceAvailable, \<lparr>privKey = (), nonces = []\<rparr>)"
  using Nonce_lifo [of "\<lparr>privKey = (), nonces = [''n1'', ''n2'']\<rparr>"
                        "\<lparr>StatusCode = 400, Header = [''Replay-Nonce'' \<mapsto> [''n3'']], Body = []\<rparr>"]
        Nonce_lifo [of "\<lparr>privKey = (), nonces = [''n1'']\<rparr>"
                        "\<lparr>StatusCode = 400, Header = [''Replay-Nonce'' \<mapsto> [''n3'']], Body = []\<rparr>"]
        Nonce_lifo [of "\<lparr>privKey = (), nonces = []\<rparr>"
                        "\<lparr>StatusCode = 400, Header = [''Replay-Nonce'' \<mapsto> [''n3'']], Body = []\<rparr>"]
  by (simp add: Header_Get_def)

lemma signContent_draws_one:
  assumes "signContent tp j content = (Inr signed, j', cs)"
  shows "nonces j \<noteq> [] \<and> j' = j\<lparr>nonces := butlast (nonces j)\<rparr>"
proof (cases "nonces j = []")
  case True
  then have "Nonce j = (Inl NoNonceAvailable, j)" by (rule Nonce_empty)
  with assms show ?thesis
    by (simp add: signContent_def split: option.splits)
next
  case False
  then have "Nonce j = (Inr (last (nonces j)), j\<lparr>nonces := butlast (nonces j)\<rparr>)"
    by (rule Nonce_nonempty)
  with assms False show ?thesis
    by (auto simp: signContent_def split: option.splits sum.splits)
qed

text \<open>
  Claim C2. A successful sign draws exactly one nonce, so the pool is one smaller after
  it; harvesting a response makes the pool exactly one larger when the response carries a
  \<open>Replay-Nonce\<close> header and leaves the pool as it is when it does not; the HTTP status
  of the response plays no part. The source reads the header with
  \<open>Header.Get("Replay-Nonce")\<close>: the header is carried when that call yields a nonce, the
  first value stored for the header, which is not the empty string.
\<close>

theorem nonce_pool_size:
  "(signContent tp j content = (Inr signed, j', cs) \<longrightarrow>
      length (nonces j') + 1 = length (nonces j))
   \<and> (Nonce j = (Inr n, j'') \<longrightarrow> length (nonces j'') + 1 = length (nonces j))
   \<and> length (nonces (snd (getNonceFromResponse j resp)))
        = length (nonces j)
          + (if Header_Get (Header resp) ''Replay-Nonce'' = [] then 0 else 1)
   \<and> getNonceFromResponse j (resp\<lparr>StatusCode := code\<rparr>) = getNonceFromResponse j resp
   \<and> (Header resp ''Replay-Nonce'' = Some (v # vs) \<and> v \<noteq> [] \<longrightarrow>
        getNonceFromResponse j resp = (None, j\<lparr>nonces := nonces j @ [v]\<rparr>))
   \<and> (Header resp ''Replay-Nonce'' = None \<longrightarrow>
        getNonceFromResponse j resp = (Some NoProperNonceHeader, j))"
proof (intro conjI impI)
  assume "Header resp ''Replay-Nonce'' = Some (v # vs) \<and> v \<noteq> []"
  then show "getNonceFromResponse j resp = (None, j\<lparr>nonces := nonces j @ [v]\<rparr>)"
    by (simp add: getNonceFromResponse_def Header_Get_def)
next
  assume "Header resp ''Replay-Nonce'' = None"
  then show "getNonceFromResponse j resp = (Some NoProperNonceHeader, j)"
    by (simp add: getNonceFromResponse_def Header_Get_def)
next
  assume "signContent tp j content = (Inr signed, j', cs)"
  then have "nonces j \<noteq> [] \<and> j' = j\<lparr>nonces := butlast (nonces j)\<rparr>"
    by (rule signContent_draws_one)
  then show "length (nonces j') + 1 = length (nonces j)"
    by (cases "nonces j") simp_all
next
  assume a: "Nonce j = (Inr n, j'')"
  then have ne: "nonces j \<noteq> []"
    by (auto simp: Nonce_def split: if_splits)
  with a have "j'' = j\<lparr>nonces := butlast (nonces j)\<rparr>"
    by (simp add: Nonce_nonempty)
  with ne show "length (nonces j'') + 1 = length (nonces j)"
    by (cases "nonces j") simp_all
next
  show "length (nonces (snd (getNonceFromResponse j resp)))
        = length (nonces j)
          + (if Header_Get (Header resp) ''Replay-Nonce'' = [] then 0 else 1)"
    by (simp add: getNonceFromResponse_def Let_def)
next
  show "getNonceFromResponse j (resp\<lparr>StatusCode := code\<rparr>) = getNonceFromResponse j resp"
    by (simp add: getNonceFromResponse_def)
qed

theorem nonce_pool_size_witness:
  "signContent scriptedTransport \<lparr>privKey = (), nonces = [''n1'', ''n2'']\<rparr> ''payload''
     = (Inr ''payload.n2'', \<lparr>privKey = (), nonces = [''n1'']\<rparr>,
        [Call_jose_NewSigner, Call_jose_Sign])
   \<and> length (nonces \<lparr>privKey = (), nonces = [''n1'']\<rparr>) + 1
     = length (nonces \<lparr>privKey = (), nonces = [''n1'', ''n2'']\<rparr>)
   \<and> length (nonces (snd (getNonceFromResponse \<lparr>privKey = (), nonces = [''n1'', ''n2'']\<rparr>
        \<lparr>StatusCode = 400, Header = [''Replay-Nonce'' \<mapsto> [''n3'']], Body = []\<rparr>))) = 3
   \<and> length (nonces (snd (getNonceFromResponse \<lparr>privKey = (), nonces = [''n1'', ''n2'']\<rparr>
        \<lparr>StatusCode = 200, Header = Map.empty, Body = []\<rparr>))) = 2"
proof -
  let ?j = "\<lparr>privKey = (), nonces = [''n1'', ''n2'']\<rparr>"
  let ?j' = "\<lparr>privKey = (), nonces = [''n1'']\<rparr>"
  have s: "signContent scriptedTransport ?j ''payload''
             = (Inr ''payload.n2'', ?j', [Call_jose_NewSigner, Call_jose_Sign])"
    by (simp add: signContent_def scriptedTransport_def Nonce_def)
  have n: "Nonce ?j = (Inr ''n2'', ?j')"
    by (simp add: Nonce_def)
  have g1: "Header_Get [''Replay-Nonce'' \<mapsto> [''n3'']] ''Replay-Nonce'' = ''n3''"
    by (simp add: Header_Get_def)
  have g2: "Header_Get Map.empty ''Replay-Nonce'' = []"
    by (simp add: Header_Get_def)
  from s n g1
    nonce_pool_size [of scriptedTransport ?j "''payload''" "''payload.n2''" ?j'
      "[Call_jose_NewSigner, Call_jose_Sign]" "''n2''" ?j'
      "\<lparr>StatusCode = 400, Header = [''Replay-Nonce'' \<mapsto> [''n3'']], Body = []\<rparr>" 400
      "''n3''" "[]"]
  have a: "length (nonces ?j') + 1 = length (nonces ?j)
      \<and> length (nonces (snd (getNonceFromResponse ?j
           \<lparr>StatusCode = 400, Header = [''Replay-Nonce'' \<mapsto> [''n3'']], Body = []\<rparr>))) = 3"
    by simp
  from g2
    nonce_pool_size [of scriptedTransport ?j "''payload''" "''payload.n2''" ?j'
      "[Call_jose_NewSigner, Call_jose_Sign]" "''n2''" ?j'
      "\<lparr>StatusCode = 200, Header = Map.empty, Body = []\<rparr>" 200]
  have b: "length (nonces (snd (getNonceFromResponse ?j
           \<lparr>StatusCode = 200, Header = Map.empty, Body = []\<rparr>))) = 2"
    by simp
  from s a b show ?thesis by simp
qed

section \<open>Properties of parseLinks\<close>


lemma length_Split: "length (Split s sep) = Suc (count_list s sep)"
  by (induction s) (auto split: list.splits)

lemma count_list_pos: "0 < count_list s sep \<longleftrightarrow> sep \<in> set s"
  by (induction s) auto

lemma Split_in_bounds: "Suc 0 < length (Split s sep) \<longleftrightarrow> sep \<in> set s"
  by (simp add: length_Split count_list_pos)

lemma semicolon_kept: "CHR '';'' \<in> set (aBrkt_ReplaceAllString l) \<longleftrightarrow> CHR '';'' \<in> set l"
  by (auto simp: aBrkt_ReplaceAllString_def)

lemma matchToks_length:
  "matchToks re cs i caps = Some ps \<Longrightarrow> length ps = Suc (length caps + count_list re Mark)"
  by (induction re cs i caps arbitrary: ps rule: matchToks.induct)
     (auto split: if_splits option.splits)

lemma submatches_length: "length ps = 5 \<Longrightarrow> length (submatches s ps) = 3"
proof -
  assume "length ps = 5"
  then obtain a b c d e where "ps = [a, b, c, d, e]"
    by (auto simp: length_Suc_conv numeral_eq_Suc)
  then show ?thesis by (simp add: submatches_def)
qed

lemma slver_submatches:
  "FindStringSubmatch slver s = [] \<or> length (FindStringSubmatch slver s) = 3"
proof (induction s)
  case Nil
  show ?case
    by (auto split: option.splits dest!: matchToks_length simp: submatches_length slver_def)
next
  case (Cons c cs)
  then show ?case
    by (auto split: option.splits dest!: matchToks_length simp: submatches_length slver_def)
qed

lemma parseLink_ok:
  "CHR '';'' \<in> set l \<Longrightarrow>
   parseLink m l = Inr (case linkEntry l of None \<Rightarrow> m | Some (k, u) \<Rightarrow> m(k \<mapsto> u))"
  using slver_submatches [of "Split (aBrkt_ReplaceAllString l) CHR '';'' ! 1"]
  by (auto simp: parseLink_def linkEntry_def Let_def Split_in_bounds semicolon_kept)

lemma parseLink_panic:
  "CHR '';'' \<notin> set l \<Longrightarrow> parseLink m l = Inl PanicIndexOutOfRange"
  by (simp add: parseLink_def Let_def Split_in_bounds semicolon_kept)

lemma parseLinksLoop_ok:
  "(\<forall>l\<in>set links. CHR '';'' \<in> set l) \<Longrightarrow>
   parseLinksLoop m links = Inr (m ++ map_of (rev (List.map_filter linkEntry links)))"
proof (induction links arbitrary: m)
  case Nil
  then show ?case by (simp add: List.map_filter_simps)
next
  case (Cons l ls)
  then show ?case
    by (auto simp: parseLink_ok List.map_filter_simps split: option.splits)
qed

lemma parseLinksLoop_panic:
  "\<exists>l\<in>set links. CHR '';'' \<notin> set l \<Longrightarrow> parseLinksLoop m links = Inl PanicIndexOutOfRange"
proof (induction links arbitrary: m)
  case Nil
  then show ?case by simp
next
  case (Cons l ls)
  show ?case
  proof (cases "CHR '';'' \<in> set l")
    case True
    with Cons show ?thesis by (auto simp: parseLink_ok)
  next
    case False
    then show ?thesis by (simp add: parseLink_panic)
  qed
qed


lemma map_filter_append: "List.map_filter f (xs @ ys) = List.map_filter f xs @ List.map_filter f ys"
  by (simp add: List.map_filter_def)

lemma map_of_last_wins:
  assumes "\<forall>e\<in>set after. fst e \<noteq> k"
  shows "map_of (rev (before @ (k, u) # after)) k = Some u"
proof -
  have "map_of (rev after) k = None"
    using assms by (force simp: map_of_eq_None_iff)
  then show ?thesis
    by (simp add: map_add_def)
qed

lemma linkEntry_tosLink: "linkEntry tosLink = Some (''terms-of-service'', ''https://ca.example/terms'')"
  by (simp add: linkEntry_def tosLink_def aBrkt_ReplaceAllString_def slver_def submatches_def Let_def)
lemma linkEntry_nextLink1: "linkEntry nextLink1 = Some (''next'', ''https://ca.example/authz/1'')"
  by (simp add: linkEntry_def nextLink1_def aBrkt_ReplaceAllString_def slver_def submatches_def Let_def)
lemma linkEntry_nextLink2: "linkEntry nextLink2 = Some (''next'', ''https://ca.example/authz/2'')"
  by (simp add: linkEntry_def nextLink2_def aBrkt_ReplaceAllString_def slver_def submatches_def Let_def)
lemma linkEntry_twoInOne: "linkEntry twoInOne = Some (''next'', ''https://ca.example/a'')"
  by (simp add: linkEntry_def twoInOne_def aBrkt_ReplaceAllString_def slver_def submatches_def Let_def)


lemma semicolon_in_fixtures:
  "CHR '';'' \<in> set tosLink" "CHR '';'' \<in> set nextLink1" "CHR '';'' \<in> set nextLink2"
  "CHR '';'' \<in> set twoInOne"
  by (simp_all add: tosLink_def nextLink1_def nextLink2_def twoInOne_def)

text \<open>
  Claim C8. When every value passed to \<open>parseLinks\<close> contains a \<open>;\<close>, no index is out of
  range: \<open>parts[1]\<close> exists for every value (and \<open>matches[2]\<close> exists whenever the expression
  matched), so \<open>parseLinks\<close> returns a map. Conversely the only failure of \<open>parseLinks\<close> is
  the index panic, and it needs a value without \<open>;\<close>.
\<close>

theorem parseLinks_index_in_bounds:
  "((\<forall>l\<in>set links. CHR '';'' \<in> set l) \<longrightarrow> (\<exists>m. parseLinks links = Inr m))
   \<and> (parseLinks links = Inl err \<longrightarrow>
        err = PanicIndexOutOfRange \<and> (\<exists>l\<in>set links. CHR '';'' \<notin> set l))
   \<and> ((\<exists>l\<in>set links. CHR '';'' \<notin> set l) \<longrightarrow> parseLinks links = Inl PanicIndexOutOfRange)"
proof (intro conjI impI)
  assume "\<forall>l\<in>set links. CHR '';'' \<in> set l"
  then show "\<exists>m. parseLinks links = Inr m"
    by (simp add: parseLinks_def parseLinksLoop_ok)
next
  assume failed: "parseLinks links = Inl err"
  show "err = PanicIndexOutOfRange"
  proof (cases "\<forall>l\<in>set links. CHR '';'' \<in> set l")
    case True
    with failed show ?thesis by (simp add: parseLinks_def parseLinksLoop_ok)
  next
    case False
    then have "parseLinksLoop Map.empty links = Inl PanicIndexOutOfRange"
      by (intro parseLinksLoop_panic) blast
    with failed show ?thesis by (simp add: parseLinks_def)
  qed
next
  assume failed: "parseLinks links = Inl err"
  show "\<exists>l\<in>set links. CHR '';'' \<notin> set l"
  proof (rule ccontr)
    assume "\<not> (\<exists>l\<in>set links. CHR '';'' \<notin> set l)"
    then have "\<forall>l\<in>set links. CHR '';'' \<in> set l" by blast
    with failed show False by (simp add: parseLinks_def parseLinksLoop_ok)
  qed
next
  assume "\<exists>l\<in>set links. CHR '';'' \<notin> set l"
  then show "parseLinks links = Inl PanicIndexOutOfRange"
    by (simp add: parseLinks_def parseLinksLoop_panic)
qed

theorem parseLinks_index_in_bounds_witness:
  "(\<exists>m. parseLinks [tosLink, nextLink1] = Inr m)
   \<and> parseLinks [tosLink, ''https://ca.example/authz/1''] = Inl PanicIndexOutOfRange"
  using parseLinks_index_in_bounds [of "[tosLink, nextLink1]" PanicIndexOutOfRange]
        parseLinks_index_in_bounds [of "[tosLink, ''https://ca.example/authz/1'']"
                                       PanicIndexOutOfRange]
  by (simp add: semicolon_in_fixtures)

text \<open>
  Claim C4, as the source has it. \<open>parseLinks\<close> reads one relation entry from each value
  of the \<open>Link\<close> header (each element of the slice, which must contain a \<open>;\<close>): the
  relation name comes from the value's second \<open>;\<close>-segment and the URL is the text before
  the first \<open>;\<close> with the angle brackets removed. The result maps relation names to URLs,
  and among the values that name the same relation the last one's URL wins.
\<close>

theorem parseLinks_last_value_wins:
  assumes semi: "\<forall>x\<in>set (earlier @ l # later_links). CHR '';'' \<in> set x"
      and entry: "linkEntry l = Some (k, u)"
      and later: "\<forall>x\<in>set later_links. \<forall>v. linkEntry x \<noteq> Some (k, v)"
  shows "parseLinks (earlier @ l # later_links)
           = Inr (map_of (rev (List.map_filter linkEntry (earlier @ l # later_links))))
         \<and> map_of (rev (List.map_filter linkEntry (earlier @ l # later_links))) k = Some u"
proof
  show "parseLinks (earlier @ l # later_links)
           = Inr (map_of (rev (List.map_filter linkEntry (earlier @ l # later_links))))"
    using parseLinksLoop_ok [OF semi, of Map.empty] by (simp add: parseLinks_def)
next
  have split: "List.map_filter linkEntry (earlier @ l # later_links)
      = List.map_filter linkEntry earlier @ (k, u) # List.map_filter linkEntry later_links"
    using entry by (simp add: map_filter_append List.map_filter_simps)
  have "\<forall>e\<in>set (List.map_filter linkEntry later_links). fst e \<noteq> k"
    using later by (auto simp: List.map_filter_def)
  then show "map_of (rev (List.map_filter linkEntry (earlier @ l # later_links))) k = Some u"
    unfolding split by (rule map_of_last_wins)
qed


theorem parseLinks_last_value_wins_witness:
  "parseLinks [nextLink1, tosLink, nextLink2, tosLink]
     = Inr (map_of (rev (List.map_filter linkEntry [nextLink1, tosLink, nextLink2, tosLink])))
   \<and> map_of (rev (List.map_filter linkEntry [nextLink1, tosLink, nextLink2, tosLink])) ''next''
     = Some ''https://ca.example/authz/2''"
  using parseLinks_last_value_wins [of "[nextLink1, tosLink]" nextLink2 "[tosLink]"
          "''next''" "''https://ca.example/authz/2''"]
  by (simp add: semicolon_in_fixtures linkEntry_tosLink linkEntry_nextLink2)

text \<open>
  The claim as the specification words it fails for entries that share one header value,
  separated by a comma: only the first entry of the value is read, so the first URL is
  kept and the last one is lost.
\<close>

theorem parseLinks_comma_entries_counterexample:
  "(case parseLinks [twoInOne] of Inl e \<Rightarrow> None | Inr m \<Rightarrow> m ''next'')
     = Some ''https://ca.example/a''
   \<and> (case parseLinks [twoInOne] of Inl e \<Rightarrow> None | Inr m \<Rightarrow> m ''next'')
     \<noteq> Some ''https://ca.example/b''"
  by (simp add: parseLinks_def parseLink_def twoInOne_def aBrkt_ReplaceAllString_def
        slver_def submatches_def Let_def)

section \<open>Properties of solver selection\<close>

text \<open>
  \<open>chooseSolvers\<close> never reads the challenge indices a combination lists: its result
  depends on the lengths of the combinations only.
\<close>


lemma chooseSolversLoop_lengths_only:
  "map length combs = map length combs' \<Longrightarrow>
   chooseSolversLoop registry chs combs = chooseSolversLoop registry chs combs'"
proof (induction combs arbitrary: combs')
  case Nil
  then show ?case by simp
next
  case (Cons c cs)
  then obtain c' cs' where "combs' = c' # cs'" "length c = length c'" "map length cs = map length cs'"
    by (cases combs') auto
  with Cons.IH [of cs'] show ?case by (auto split: sum.splits)
qed

text \<open>
  Claim C1. The specification selects the first combination whose listed challenge
  indices all have a registered solver. The source looks challenges up by the position
  inside the combination instead. For the challenges \<open>[simpleHttp, dvsni]\<close>, the single
  combination \<open>[1]\<close> and a registry that knows \<open>simpleHttp\<close> only, no combination is
  covered (challenge 1 is \<open>dvsni\<close>), yet \<open>chooseSolvers\<close> returns the \<open>simpleHttp\<close> solver
  under key 0 and \<open>solveChallenges\<close> runs it on challenge 0, which the combination does
  not list. On the specification's own example (combinations \<open>[[0],[1,2]]\<close>, a solver for
  the type of challenge 2 only) the source does return nil.
\<close>

theorem chooseSolvers_positional_index:
  "chooseSolvers [''simpleHttp'' \<mapsto> ''S1'']
      (authzOf [chal ''simpleHttp'', chal ''dvsni''] [[1]])
     = Inr (Some [(0, ''S1'')])
   \<and> chooseSolvers_spec [''simpleHttp'' \<mapsto> ''S1'']
      (authzOf [chal ''simpleHttp'', chal ''dvsni''] [[1]]) = None
   \<and> solveChallenges [''simpleHttp'' \<mapsto> ''S1'']
        [\<lparr>authorizationResource.Body = authzOf [chal ''simpleHttp'', chal ''dvsni''] [[1]],
          NewCertURL = ''https://ca.example/new-cert'', Domain = ''example.com''\<rparr>]
     = (None, [(''S1'', chal ''simpleHttp'', ''example.com'')])
   \<and> chooseSolvers [''dns'' \<mapsto> ''S3'']
      (authzOf [chal ''simpleHttp'', chal ''dvsni'', chal ''dns''] [[0], [1, 2]]) = Inr None
   \<and> chooseSolvers_spec [''dns'' \<mapsto> ''S3'']
      (authzOf [chal ''simpleHttp'', chal ''dvsni'', chal ''dns''] [[0], [1, 2]]) = None"
  by (simp add: chooseSolvers_def chooseSolvers_spec_def covered_def authzOf_def chal_def
        upt_rec)

section \<open>Properties of construction, signing and registration\<close>


lemma signContent_calls:
  "set (snd (snd (signContent tp j content))) \<subseteq> {Call_jose_NewSigner, Call_jose_Sign}"
  by (auto simp: signContent_def split: option.splits sum.splits prod.splits)

lemma getNonce_calls:
  "snd (snd (snd (getNonce tp j url w))) = [Call_http_Head url]"
  by (auto simp: getNonce_def split: sum.splits prod.splits)

lemma post_calls:
  "set (snd (snd (snd (post tp j url content w))))
     \<subseteq> {Call_http_Head url, Call_jose_NewSigner, Call_jose_Sign, Call_http_Post url}"
proof -
  obtain r0 j0 w0 c0 where g:
    "(if length (nonces j) = 0 then getNonce tp j url w else (None, j, w, [])) = (r0, j0, w0, c0)"
    by (metis prod_cases4)
  have c0: "set c0 \<subseteq> {Call_http_Head url}"
    using g getNonce_calls [of tp j url w] by (auto split: if_splits)
  obtain r1 j1 c1 where s: "signContent tp j0 content = (r1, j1, c1)"
    by (metis prod_cases3)
  have c1: "set c1 \<subseteq> {Call_jose_NewSigner, Call_jose_Sign}"
    using s signContent_calls [of tp j0 content] by simp
  show ?thesis
    using c0 c1 g s
    by (auto simp: post_def split: option.splits sum.splits prod.splits)
qed

lemma post_scripted:
  "post scriptedTransport \<lparr>privKey = (), nonces = []\<rparr> url content
      [nonceResponse, conflictResponse]
   = (Inr conflictResponse, \<lparr>privKey = (), nonces = [''n2'']\<rparr>, [],
      [Call_http_Head url, Call_jose_NewSigner, Call_jose_Sign, Call_http_Post url])"
  by (simp add: post_def getNonce_def signContent_def Nonce_def getNonceFromResponse_def
        Header_Get_def scriptedTransport_def scripted_def nonceResponse_def
        conflictResponse_def)

text \<open>
  Claim C7. \<open>NewClient\<close> calls the key's validity check exactly once, as its first call,
  and makes no network call; when the check fails the process exits through
  \<open>logger().Fatalf\<close> and no client is built. Neither \<open>signContent\<close> nor \<open>post\<close> calls
  the validity check.
\<close>

theorem key_validated_once_at_construction:
  "count_list (snd (NewClient tp caURL usr optPort :: (error + ('k, 's) client) \<times> call list))
      Call_rsa_Validate = 1
   \<and> hd (snd (NewClient tp caURL usr optPort :: (error + ('k, 's) client) \<times> call list))
      = Call_rsa_Validate
   \<and> set (snd (NewClient tp caURL usr optPort :: (error + ('k, 's) client) \<times> call list))
      \<subseteq> {Call_rsa_Validate, Call_logger_Fatalf}
   \<and> (GetPrivateKey usr = Some key \<and> rsa_Validate tp key = Some err \<longrightarrow>
        (NewClient tp caURL usr optPort :: (error + ('k, 's) client) \<times> call list)
          = (Inl FatalExit, [Call_rsa_Validate, Call_logger_Fatalf]))
   \<and> Call_rsa_Validate \<notin> set (snd (snd (signContent tp j content)))
   \<and> Call_rsa_Validate \<notin> set (snd (snd (snd (post tp j url content w))))"
proof (intro conjI impI)
  show "Call_rsa_Validate \<notin> set (snd (snd (signContent tp j content)))"
    using signContent_calls [of tp j content] by auto
  show "Call_rsa_Validate \<notin> set (snd (snd (snd (post tp j url content w))))"
    using post_calls [of tp j url content w] by auto
qed (auto simp: NewClient_def split: option.splits)


theorem key_validated_once_at_construction_witness:
  "(NewClient (scriptedTransport\<lparr>rsa_Validate := (\<lambda>k. Some (External ''key too short''))\<rparr>)
       ''https://ca.example/new-reg'' aliceUser ''443''
     :: (error + (unit, string) client) \<times> call list)
     = (Inl FatalExit, [Call_rsa_Validate, Call_logger_Fatalf])
   \<and> Call_rsa_Validate \<notin> set (snd (snd (snd
        (post scriptedTransport \<lparr>privKey = (), nonces = []\<rparr> ''https://ca.example/new-reg''
           ''payload'' [nonceResponse, conflictResponse]))))"
  using key_validated_once_at_construction
    [of "scriptedTransport\<lparr>rsa_Validate := (\<lambda>k. Some (External ''key too short''))\<rparr>"
        "''https://ca.example/new-reg''" aliceUser "''443''" "()" "External ''key too short''"
        "\<lparr>privKey = (), nonces = []\<rparr>" "''payload''" "''https://ca.example/new-reg''"
        "[nonceResponse, conflictResponse]",
     where ?'s = string]
    key_validated_once_at_construction
    [of scriptedTransport
        "''https://ca.example/new-reg''" aliceUser "''443''" "()" "External ''key too short''"
        "\<lparr>privKey = (), nonces = []\<rparr>" "''payload''" "''https://ca.example/new-reg''"
        "[nonceResponse, conflictResponse]",
     where ?'s = string]
  by (simp add: aliceUser_def scriptedTransport_def)

text \<open>
  Claim C10. When \<open>post\<close> delivers a response with status 409 (Conflict), \<open>Register\<close>
  returns the error "already registered" and no registration resource.
\<close>

theorem Register_conflict_is_error:
  assumes "marshal_registrationMessage cd [''mailto:'' @ GetEmail (user c)] = Inr jsonBytes"
      and "post tp (jws c) (regURL c) jsonBytes w = (Inr resp, j, w', cs)"
      and "StatusCode resp = 409"
  shows "Register tp cd c w = (Inl AlreadyRegistered, c\<lparr>jws := j\<rparr>, w', cs)
         \<and> fst (Register tp cd c w) \<noteq> Inr reg"
  using assms by (simp add: Register_def)

theorem Register_conflict_is_error_witness:
  "Register scriptedTransport plainCodec aliceClient [nonceResponse, conflictResponse]
     = (Inl AlreadyRegistered,
        aliceClient\<lparr>jws := \<lparr>privKey = (), nonces = [''n2'']\<rparr>\<rparr>, [],
        [Call_http_Head ''https://ca.example/new-reg'', Call_jose_NewSigner, Call_jose_Sign,
         Call_http_Post ''https://ca.example/new-reg''])"
proof -
  have m: "marshal_registrationMessage plainCodec [''mailto:'' @ GetEmail (user aliceClient)]
             = Inr ''mailto:alice@example.com''"
    by (simp add: plainCodec_def aliceClient_def aliceUser_def)
  have p: "post scriptedTransport (jws aliceClient) (regURL aliceClient)
             ''mailto:alice@example.com'' [nonceResponse, conflictResponse]
           = (Inr conflictResponse, \<lparr>privKey = (), nonces = [''n2'']\<rparr>, [],
              [Call_http_Head ''https://ca.example/new-reg'', Call_jose_NewSigner,
               Call_jose_Sign, Call_http_Post ''https://ca.example/new-reg''])"
    using post_scripted [of "''https://ca.example/new-reg''" "''mailto:alice@example.com''"]
    by (simp add: aliceClient_def)
  have s: "StatusCode conflictResponse = 409"
    by (simp add: conflictResponse_def)
  from Register_conflict_is_error [OF m p s] show ?thesis by simp
qed

section \<open>Properties of fetching challenges and ObtainCertificates\<close>




lemma goroutine_a:
  "challengeGoroutine plainCodec flakyServer bobClient ''a.example.com''
     = ([Err (External ''connection refused'')], Returns)"
  by (simp add: challengeGoroutine_def plainCodec_def flakyServer_def bobClient_def
        zeroAuthorization_def)

lemma parseLinks_created:
  "parseLinks (Header_Values (Header createdResponse) ''Link'')
     = Inr (map_of (rev (List.map_filter linkEntry [nextLink1])))"
  using parseLinksLoop_ok [of "[nextLink1]" Map.empty]
  by (simp add: createdResponse_def Header_Values_def parseLinks_def semicolon_in_fixtures)

lemma goroutine_b:
  "challengeGoroutine plainCodec flakyServer bobClient ''b.example.com''
     = ([Res \<lparr>authorizationResource.Body = authzOf [chal ''simpleHttp''] [[0]],
              NewCertURL = ''https://ca.example/authz/1'', Domain = ''b.example.com''\<rparr>],
        Returns)"
proof -
  have st: "StatusCode createdResponse = 201"
    by (simp add: createdResponse_def)
  have links: "parseLinks (Header_Values (Header createdResponse) ''Link'')
                 = Inr [''next'' \<mapsto> ''https://ca.example/authz/1'']"
    by (simp add: parseLinks_created List.map_filter_simps linkEntry_nextLink1)
  have reg: "GetRegistration (user bobClient)
               = Some \<lparr>registrationResource.Body = \<lparr>Contact = [], Agreement = []\<rparr>,
                       registrationResource.URI = ''https://ca.example/reg/1'',
                       NewAuthzURL = ''https://ca.example/new-authz'', TosURL = []\<rparr>"
    by (simp add: bobClient_def)
  show ?thesis
    by (simp add: challengeGoroutine_def plainCodec_def flakyServer_def reg st links
          zeroAuthorization_def mapGet_def)
qed

lemma deliver_ab:
  "deliver (map (\<lambda>domain. fst (challengeGoroutine plainCodec flakyServer bobClient domain))
              [''a.example.com'', ''b.example.com'']) [1, 0]
     = [Res \<lparr>authorizationResource.Body = authzOf [chal ''simpleHttp''] [[0]],
             NewCertURL = ''https://ca.example/authz/1'', Domain = ''b.example.com''\<rparr>,
        Err (External ''connection refused'')]"
  by (simp add: goroutine_a goroutine_b)






section \<open>Properties of the order service\<close>
lemma foldl_identifiers:
  "foldl (\<lambda>identifiers domain.
            identifiers @ [\<lparr>acme_identifier.Type = ''dns'', Value = domain\<rparr>]) acc domains
   = acc @ map (\<lambda>domain. \<lparr>acme_identifier.Type = ''dns'', Value = domain\<rparr>) domains"
  by (induction domains arbitrary: acc) simp_all

lemma Identifiers_orderRequest:
  "Identifiers (orderRequest domains)
     = map (\<lambda>domain. \<lparr>acme_identifier.Type = ''dns'', Value = domain\<rparr>) domains"
  by (simp add: orderRequest_def foldl_identifiers)

lemma encode_Man: "RawURLEncoding_EncodeToString ''Man'' = ''TWFu''"
  by (simp add: RawURLEncoding_EncodeToString_def encodeURL_def)
lemma encode_FBFF: "RawURLEncoding_EncodeToString [CHR 0xFB, CHR 0xFF] = ''-_8''"
  by (simp add: RawURLEncoding_EncodeToString_def encodeURL_def)
lemma encode_M: "RawURLEncoding_EncodeToString ''M'' = ''TQ''"
  by (simp add: RawURLEncoding_EncodeToString_def encodeURL_def)

text \<open>
  Claim C5, as the source has it. \<open>OrderService.New\<close> builds an order with exactly one
  identifier of type \<open>dns\<close> per input domain, in the order of the input and with each
  domain as it was given (duplicates and letter case are kept), posts it to the new-order
  URL and, when the post succeeds, returns the order decoded from the answer together
  with the \<open>Location\<close> header of the response; when the post fails it returns the error.
\<close>

theorem OrderService_New_one_identifier_per_domain:
  "map Value (Identifiers (orderRequest domains)) = domains
   \<and> length (Identifiers (orderRequest domains)) = length domains
   \<and> list_all (\<lambda>i. acme_identifier.Type i = ''dns'') (Identifiers (orderRequest domains))
   \<and> (core_post o_core (NewOrderURL o_core) (OrderRequest (orderRequest domains)) w
          = (Inr (resp, order), w') \<longrightarrow>
        OrderService_New o_core domains w
          = (Inr \<lparr>Order = order, Location = Header_Get (Header resp) ''Location''\<rparr>, w'))
   \<and> (core_post o_core (NewOrderURL o_core) (OrderRequest (orderRequest domains)) w
          = (Inl err, w') \<longrightarrow>
        OrderService_New o_core domains w = (Inl err, w'))"
  by (simp add: Identifiers_orderRequest OrderService_New_def comp_def list_all_iff)

theorem OrderService_New_one_identifier_per_domain_witness:
  "OrderService_New recordingCore [''a.example.com'', ''b.example.com''] []
     = (Inr \<lparr>Order = processingOrder, Location = ''https://ca.example/order/1''\<rparr>,
        [(''https://ca.example/new-order'',
          OrderRequest (orderRequest [''a.example.com'', ''b.example.com'']))])
   \<and> map Value (Identifiers (orderRequest [''a.example.com'', ''b.example.com'']))
     = [''a.example.com'', ''b.example.com'']
   \<and> OrderService_New offlineCore [''a.example.com''] []
     = (Inl (External ''connection refused''),
        [(''https://ca.example/new-order'', OrderRequest (orderRequest [''a.example.com'']))])"
proof -
  have off: "core_post offlineCore (NewOrderURL offlineCore)
               (OrderRequest (orderRequest [''a.example.com''])) []
             = (Inl (External ''connection refused''),
                [(''https://ca.example/new-order'',
                  OrderRequest (orderRequest [''a.example.com'']))])"
    by (simp add: offlineCore_def)
  note failed = OrderService_New_one_identifier_per_domain
    [of "[''a.example.com'']" offlineCore "[]" _ _ _ "External ''connection refused''",
     THEN conjunct2, THEN conjunct2, THEN conjunct2, THEN conjunct2, THEN mp, OF off]
  have p: "core_post recordingCore (NewOrderURL recordingCore)
             (OrderRequest (orderRequest [''a.example.com'', ''b.example.com''])) []
           = (Inr (\<lparr>StatusCode = 201,
                      Header = [''Location'' \<mapsto> [''https://ca.example/order/1'']],
                      Body = []\<rparr>, processingOrder),
              [(''https://ca.example/new-order'',
                OrderRequest (orderRequest [''a.example.com'', ''b.example.com'']))])"
    by (simp add: recordingCore_def)
  from OrderService_New_one_identifier_per_domain
    [of "[''a.example.com'', ''b.example.com'']" recordingCore "[]" _ processingOrder, 
     THEN conjunct2, THEN conjunct2, THEN conjunct2, THEN conjunct1, THEN mp, OF p]
  have "OrderService_New recordingCore [''a.example.com'', ''b.example.com''] []
     = (Inr \<lparr>Order = processingOrder, Location = ''https://ca.example/order/1''\<rparr>,
        [(''https://ca.example/new-order'',
          OrderRequest (orderRequest [''a.example.com'', ''b.example.com'']))])"
    by (simp add: Header_Get_def)
  moreover from OrderService_New_one_identifier_per_domain
    [of "[''a.example.com'', ''b.example.com'']", THEN conjunct1]
  have "map Value (Identifiers (orderRequest [''a.example.com'', ''b.example.com'']))
     = [''a.example.com'', ''b.example.com'']" .
  ultimately show ?thesis using failed by (intro conjI)
qed

text \<open>
  The claim as the specification words it (C5) fails: a domain given twice and in upper
  case is sent twice and in upper case.
\<close>

theorem OrderService_New_keeps_duplicates_counterexample:
  "map Value (Identifiers (orderRequest [''Example.COM'', ''example.com'', ''Example.COM'']))
     = [''Example.COM'', ''example.com'', ''Example.COM'']
   \<and> \<not> distinct (Identifiers (orderRequest [''Example.COM'', ''example.com'', ''Example.COM'']))"
  by (simp add: Identifiers_orderRequest)

text \<open>
  Claim C6, as the source has it. \<open>OrderService.UpdateForCSR\<close> posts the CSR, encoded in
  unpadded URL-safe base64, to the URL it is given, once and without polling. When the
  order of the answer is invalid it returns the server's problem document as the error
  and no order; otherwise it returns the order as received, whatever its status; when
  the post fails it returns the error of the post.
\<close>

theorem UpdateForCSR_posts_once:
  "(core_post o_core orderURL (CSRMessage (RawURLEncoding_EncodeToString csr)) w
        = (Inr (resp, order), w') \<and> order.Status order = StatusInvalid \<longrightarrow>
      OrderService_UpdateForCSR o_core orderURL csr w = (Inl (Problem (Error order)), w'))
   \<and> (core_post o_core orderURL (CSRMessage (RawURLEncoding_EncodeToString csr)) w
        = (Inr (resp, order), w') \<and> order.Status order \<noteq> StatusInvalid \<longrightarrow>
      OrderService_UpdateForCSR o_core orderURL csr w
        = (Inr \<lparr>Order = order, Location = []\<rparr>, w'))
   \<and> (core_post o_core orderURL (CSRMessage (RawURLEncoding_EncodeToString csr)) w
        = (Inl err, w') \<longrightarrow>
      OrderService_UpdateForCSR o_core orderURL csr w = (Inl err, w'))
   \<and> snd (OrderService_UpdateForCSR o_core orderURL csr w)
        = snd (core_post o_core orderURL (CSRMessage (RawURLEncoding_EncodeToString csr)) w)"
  by (auto simp: OrderService_UpdateForCSR_def split: prod.splits sum.splits)

theorem UpdateForCSR_posts_once_witness:
  "OrderService_UpdateForCSR rejectingCore ''https://ca.example/order/1/finalize'' ''Man'' []
     = (Inl (Problem (Some \<lparr>problemDetails.Type = ''urn:ietf:params:acme:error:badCSR'',
                              Detail = ''CSR is not acceptable'', HTTPStatus = 400\<rparr>)),
        [(''https://ca.example/order/1/finalize'', CSRMessage ''TWFu'')])
   \<and> OrderService_UpdateForCSR recordingCore ''https://ca.example/order/1/finalize'' ''Man'' []
     = (Inr \<lparr>Order = processingOrder, Location = []\<rparr>,
        [(''https://ca.example/order/1/finalize'', CSRMessage ''TWFu'')])
   \<and> OrderService_UpdateForCSR offlineCore ''https://ca.example/order/1/finalize'' ''Man'' []
     = (Inl (External ''connection refused''),
        [(''https://ca.example/order/1/finalize'', CSRMessage ''TWFu'')])"
proof -
  have off: "core_post offlineCore ''https://ca.example/order/1/finalize''
               (CSRMessage (RawURLEncoding_EncodeToString ''Man'')) []
             = (Inl (External ''connection refused''),
                [(''https://ca.example/order/1/finalize'', CSRMessage ''TWFu'')])"
    by (simp add: offlineCore_def encode_Man)
  note failed = UpdateForCSR_posts_once
    [of offlineCore "''https://ca.example/order/1/finalize''" "''Man''" "[]" _ _ _
        "External ''connection refused''",
     THEN conjunct2, THEN conjunct2, THEN conjunct1, THEN mp, OF off]
  have p: "core_post rejectingCore ''https://ca.example/order/1/finalize''
             (CSRMessage (RawURLEncoding_EncodeToString ''Man'')) []
           = (Inr (\<lparr>StatusCode = 200, Header = Map.empty, Body = []\<rparr>, invalidOrder),
              [(''https://ca.example/order/1/finalize'', CSRMessage ''TWFu'')])"
    by (simp add: rejectingCore_def encode_Man)
  have i: "order.Status invalidOrder = StatusInvalid"
    by (simp add: invalidOrder_def StatusInvalid_def)
  have q: "core_post recordingCore ''https://ca.example/order/1/finalize''
             (CSRMessage (RawURLEncoding_EncodeToString ''Man'')) []
           = (Inr (\<lparr>StatusCode = 201,
                      Header = [''Location'' \<mapsto> [''https://ca.example/order/1'']],
                      Body = []\<rparr>, processingOrder),
              [(''https://ca.example/order/1/finalize'', CSRMessage ''TWFu'')])"
    by (simp add: recordingCore_def encode_Man)
  have n: "order.Status processingOrder \<noteq> StatusInvalid"
    by (simp add: processingOrder_def StatusInvalid_def)
  from UpdateForCSR_posts_once
    [of rejectingCore "''https://ca.example/order/1/finalize''" "''Man''" "[]" _ invalidOrder,
     THEN conjunct1, THEN mp, OF conjI [OF p i]]
  have a: "OrderService_UpdateForCSR rejectingCore ''https://ca.example/order/1/finalize''
             ''Man'' []
           = (Inl (Problem (Error invalidOrder)),
              [(''https://ca.example/order/1/finalize'', CSRMessage ''TWFu'')])" .
  from UpdateForCSR_posts_once
    [of recordingCore "''https://ca.example/order/1/finalize''" "''Man''" "[]" _ processingOrder,
     THEN conjunct2, THEN conjunct1, THEN mp, OF conjI [OF q n]]
  have b: "OrderService_UpdateForCSR recordingCore ''https://ca.example/order/1/finalize''
             ''Man'' []
           = (Inr \<lparr>Order = processingOrder, Location = []\<rparr>,
              [(''https://ca.example/order/1/finalize'', CSRMessage ''TWFu'')])" .
  from a have a': "OrderService_UpdateForCSR rejectingCore
             ''https://ca.example/order/1/finalize'' ''Man'' []
           = (Inl (Problem (Some \<lparr>problemDetails.Type = ''urn:ietf:params:acme:error:badCSR'',
                                    Detail = ''CSR is not acceptable'', HTTPStatus = 400\<rparr>)),
              [(''https://ca.example/order/1/finalize'', CSRMessage ''TWFu'')])"
    by (simp add: invalidOrder_def)
  from a' b failed show ?thesis by (intro conjI)
qed

text \<open>
  The claim as the specification words it (C6) fails: when the server answers that the
  order is still \<open>processing\<close>, the function returns that order after its single request;
  it does not poll until the status is valid or invalid.
\<close>

theorem UpdateForCSR_no_polling_counterexample:
  "OrderService_UpdateForCSR recordingCore ''https://ca.example/order/1/finalize'' ''Man'' []
     = (Inr \<lparr>Order = processingOrder, Location = []\<rparr>,
        [(''https://ca.example/order/1/finalize'', CSRMessage ''TWFu'')])
   \<and> order.Status processingOrder = ''processing''"
  by (simp add: OrderService_UpdateForCSR_def recordingCore_def encode_Man processingOrder_def
        StatusInvalid_def zeroOrder_def)

end
